theory Spec2Isabelle
  imports Complex_Main
begin

section \<open>The IFRS9 ECL engine (src/src/ecl_engine.py)\<close>

text \<open>
  Conventions of the embedding.
  \<^item> A Python \<open>float\<close> is a \<^typ>\<open>real\<close>: arithmetic is exact. Rounding error, NaN,
    infinities and OverflowError of IEEE doubles are outside the model.
  \<^item> A Python \<open>int\<close> is an \<^typ>\<open>int\<close>.
  \<^item> An exception is a value \<open>Inl e\<close> of the result type; a normal return is \<open>Inr v\<close>.
  \<^item> A \<open>dict\<close> that is iterated is an association list in insertion order; a lookup
    \<open>d[k]\<close> is \<open>map_of d k\<close>, and a missing key is \<open>KeyError k\<close>.
  \<^item> The module globals \<open>SCENARIO_WEIGHTS\<close> and \<open>PD_MULTIPLIERS\<close> are read by
    \<open>calculate_weighted_ecl\<close> at call time. The functions that read them are modelled
    with the two dictionaries as explicit arguments (suffix \<open>_with\<close>); the functions under
    the source's names pass the values the module assigns.
\<close>

subsection \<open>Exceptions\<close>

datatype py_error = ZeroDivisionError | KeyError string

subsection \<open>The builtin \<open>round(x, 2)\<close>\<close>

text \<open>
  Python rounds to the nearest multiple of \<open>10\<^sup>-\<^sup>2\<close>, and a value exactly half way
  between two of them goes to the even one.
\<close>

definition round_half_even :: "real \<Rightarrow> int" where
  "round_half_even y =
     (let f = \<lfloor>y\<rfloor>; d = y - of_int f in
      if d < 1 / 2 then f
      else if 1 / 2 < d then f + 1
      else if even f then f else f + 1)"

definition py_round2 :: "real \<Rightarrow> real" where
  "py_round2 x = of_int (round_half_even (x * 100)) / 100"

subsection \<open>Scenario tables\<close>

definition SCENARIO_WEIGHTS :: "(string \<times> real) list" where
  "SCENARIO_WEIGHTS =
     [(''Optimistic'', 30 / 100), (''Base'', 40 / 100), (''Downturn'', 30 / 100)]"

definition PD_MULTIPLIERS :: "(string \<times> real) list" where
  "PD_MULTIPLIERS =
     [(''Optimistic'', 80 / 100), (''Base'', 1), (''Downturn'', 150 / 100)]"

subsection \<open>Loans and results\<close>

record loan =
  Loan_ID :: string
  Sector :: string
  Principal :: real
  Initial_PD :: real
  Current_PD :: real
  Maturity_Years :: int
  EIR :: real
  LGD :: real

text \<open>The dictionary that \<open>process_portfolio\<close> appends: ten keys, the result's own
  fields written with the prefix \<open>r_\<close>.\<close>

record classification_result =
  r_Loan_ID :: string
  r_Sector :: string
  r_Principal :: real
  r_Initial_PD :: real
  r_Current_PD :: real
  r_Maturity_Years :: int
  r_EIR :: real
  r_LGD :: real
  r_Stage :: int
  r_ECL :: real

subsection \<open>\<open>assign_stage\<close>\<close>

definition assign_stage :: "real \<Rightarrow> real \<Rightarrow> int" where
  "assign_stage initial_pd current_pd =
     (if current_pd > 5 / 10 then 3
      else if initial_pd > 0 \<and> current_pd / initial_pd > 3 then 2
      else 1)"

subsection \<open>\<open>calculate_ecl\<close>\<close>

text \<open>
  The body of \<open>for t in range(1, maturity_years + 1)\<close>, with the loop state
  \<open>(ecl, cum_survival)\<close> passed along. \<open>1.0 / x\<close> raises ZeroDivisionError when
  \<open>x\<close> is zero.
\<close>

fun lifetime_loop ::
  "real \<Rightarrow> real \<Rightarrow> real \<Rightarrow> real \<Rightarrow> int list \<Rightarrow> real \<Rightarrow> real \<Rightarrow> py_error + real" where
  "lifetime_loop pd_adj lgd ead eir [] ecl cum_survival = Inr ecl"
| "lifetime_loop pd_adj lgd ead eir (t # ts) ecl cum_survival =
     (let marginal_pd = cum_survival * pd_adj in
      if (1 + eir) ^ nat t = 0 then Inl ZeroDivisionError
      else
        (let discount_factor = 1 / ((1 + eir) ^ nat t) in
         lifetime_loop pd_adj lgd ead eir ts
           (ecl + marginal_pd * lgd * ead * discount_factor)
           (cum_survival * (1 - pd_adj))))"

text \<open>The \<open>else\<close> branch up to the rounding: the loop over
  \<open>range(1, maturity_years + 1)\<close>, started with \<open>ecl = 0.0\<close> and
  \<open>cum_survival = 1.0\<close>. The range is empty when \<open>maturity_years < 1\<close>.\<close>

definition lifetime_ecl :: "real \<Rightarrow> real \<Rightarrow> real \<Rightarrow> int \<Rightarrow> real \<Rightarrow> py_error + real" where
  "lifetime_ecl pd_adj lgd ead maturity_years eir =
     lifetime_loop pd_adj lgd ead eir [1..maturity_years] 0 1"

definition calculate_ecl ::
  "int \<Rightarrow> real \<Rightarrow> real \<Rightarrow> real \<Rightarrow> int \<Rightarrow> real \<Rightarrow> real \<Rightarrow> py_error + real" where
  "calculate_ecl stage current_pd lgd ead maturity_years eir pd_multiplier =
     (let pd_adj = min (current_pd * pd_multiplier) 1 in
      if stage = 1 then Inr (py_round2 (pd_adj * lgd * ead))
      else
        (case lifetime_ecl pd_adj lgd ead maturity_years eir of
           Inl e \<Rightarrow> Inl e
         | Inr ecl \<Rightarrow> Inr (py_round2 ecl)))"

subsection \<open>\<open>calculate_weighted_ecl\<close>\<close>

fun scenario_loop ::
  "(string \<times> real) list \<Rightarrow> int \<Rightarrow> real \<Rightarrow> real \<Rightarrow> real \<Rightarrow> int \<Rightarrow> real \<Rightarrow>
   (string \<times> real) list \<Rightarrow> real \<Rightarrow> py_error + real" where
  "scenario_loop mults stage current_pd lgd ead maturity_years eir [] weighted_ecl =
     Inr weighted_ecl"
| "scenario_loop mults stage current_pd lgd ead maturity_years eir
     ((scenario, weight) # rest) weighted_ecl =
     (case map_of mults scenario of
        None \<Rightarrow> Inl (KeyError scenario)
      | Some mult \<Rightarrow>
          (case calculate_ecl stage current_pd lgd ead maturity_years eir mult of
             Inl e \<Rightarrow> Inl e
           | Inr ecl_scenario \<Rightarrow>
               scenario_loop mults stage current_pd lgd ead maturity_years eir rest
                 (weighted_ecl + weight * ecl_scenario)))"

definition calculate_weighted_ecl_with ::
  "(string \<times> real) list \<Rightarrow> (string \<times> real) list \<Rightarrow>
   int \<Rightarrow> real \<Rightarrow> real \<Rightarrow> real \<Rightarrow> int \<Rightarrow> real \<Rightarrow> py_error + real" where
  "calculate_weighted_ecl_with weights mults stage current_pd lgd ead maturity_years eir =
     (case scenario_loop mults stage current_pd lgd ead maturity_years eir weights 0 of
        Inl e \<Rightarrow> Inl e
      | Inr weighted_ecl \<Rightarrow> Inr (py_round2 weighted_ecl))"

definition calculate_weighted_ecl ::
  "int \<Rightarrow> real \<Rightarrow> real \<Rightarrow> real \<Rightarrow> int \<Rightarrow> real \<Rightarrow> py_error + real" where
  "calculate_weighted_ecl =
     calculate_weighted_ecl_with SCENARIO_WEIGHTS PD_MULTIPLIERS"

subsection \<open>\<open>process_portfolio\<close>\<close>

fun portfolio_loop ::
  "(string \<times> real) list \<Rightarrow> (string \<times> real) list \<Rightarrow> loan list \<Rightarrow>
   classification_result list \<Rightarrow> py_error + classification_result list" where
  "portfolio_loop weights mults [] results = Inr results"
| "portfolio_loop weights mults (loan # rest) results =
     (let stage = assign_stage (Initial_PD loan) (Current_PD loan) in
      case calculate_weighted_ecl_with weights mults stage (Current_PD loan) (LGD loan)
             (Principal loan) (Maturity_Years loan) (EIR loan) of
        Inl e \<Rightarrow> Inl e
      | Inr ecl \<Rightarrow>
          portfolio_loop weights mults rest
            (results @
             [\<lparr>r_Loan_ID = Loan_ID loan, r_Sector = Sector loan, r_Principal = Principal loan,
               r_Initial_PD = Initial_PD loan, r_Current_PD = Current_PD loan,
               r_Maturity_Years = Maturity_Years loan, r_EIR = EIR loan, r_LGD = LGD loan,
               r_Stage = stage, r_ECL = ecl\<rparr>]))"

definition process_portfolio_with ::
  "(string \<times> real) list \<Rightarrow> (string \<times> real) list \<Rightarrow> loan list \<Rightarrow>
   py_error + classification_result list" where
  "process_portfolio_with weights mults portfolio = portfolio_loop weights mults portfolio []"

definition process_portfolio :: "loan list \<Rightarrow> py_error + classification_result list" where
  "process_portfolio = process_portfolio_with SCENARIO_WEIGHTS PD_MULTIPLIERS"

section \<open>Reference formulas and predicates of the specification\<close>

text \<open>
  The lifetime sum as the specification writes it: in year \<open>t\<close> the survival factor is
  \<open>(1 - pd_adj)\<^sup>t\<^sup>-\<^sup>1\<close> (it starts at 1 and is multiplied by \<open>1 - pd_adj\<close> after each
  year), and the discount factor is \<open>1 / (1 + eir)\<^sup>t\<close>.
\<close>

definition lifetime_sum :: "real \<Rightarrow> real \<Rightarrow> real \<Rightarrow> int \<Rightarrow> real \<Rightarrow> real" where
  "lifetime_sum pd_adj lgd ead maturity_years eir =
     (\<Sum>t = 1..nat maturity_years.
        (1 - pd_adj) ^ (t - 1) * pd_adj * lgd * ead / (1 + eir) ^ t)"


text \<open>The eight loan attributes that a result carries.\<close>

definition attributes_of :: "classification_result \<Rightarrow> loan" where
  "attributes_of r =
     \<lparr>Loan_ID = r_Loan_ID r, Sector = r_Sector r, Principal = r_Principal r,
      Initial_PD = r_Initial_PD r, Current_PD = r_Current_PD r,
      Maturity_Years = r_Maturity_Years r, EIR = r_EIR r, LGD = r_LGD r\<rparr>"

text \<open>A loan whose fields are in the ranges of the data model.\<close>

definition valid_loan :: "loan \<Rightarrow> bool" where
  "valid_loan l \<longleftrightarrow>
     0 < Principal l \<and> 0 < Initial_PD l \<and> Initial_PD l \<le> 1 \<and>
     0 < Current_PD l \<and> Current_PD l \<le> 1 \<and> 1 \<le> Maturity_Years l \<and>
     0 \<le> EIR l \<and> 0 \<le> LGD l \<and> LGD l \<le> 1"

text \<open>The scenario-set invariant: the weights sum to 1 within \<open>10\<^sup>-\<^sup>9\<close>, and every
  scenario of the weights has a multiplier.\<close>

definition valid_scenario_set :: "(string \<times> real) list \<Rightarrow> (string \<times> real) list \<Rightarrow> bool" where
  "valid_scenario_set weights mults \<longleftrightarrow>
     \<bar>sum_list (map snd weights) - 1\<bar> \<le> 1 / 10 ^ 9 \<and>
     list_all (\<lambda>(scenario, weight). map_of mults scenario \<noteq> None) weights"

text \<open>Two loans used as concrete inputs: a performing one (stage 1) and a defaulted one
  (stage 3).\<close>

abbreviation loan_L1 :: loan where
  "loan_L1 \<equiv>
     \<lparr>Loan_ID = ''L1'', Sector = ''Retail'', Principal = 100000, Initial_PD = 2 / 100,
      Current_PD = 2 / 100, Maturity_Years = 2, EIR = 5 / 100, LGD = 45 / 100\<rparr>"

abbreviation loan_L2 :: loan where
  "loan_L2 \<equiv>
     \<lparr>Loan_ID = ''L2'', Sector = ''Energy'', Principal = 100000, Initial_PD = 5 / 100,
      Current_PD = 60 / 100, Maturity_Years = 1, EIR = 3 / 100, LGD = 45 / 100\<rparr>"

section \<open>Rounding and the lifetime loop\<close>

lemma round_half_even_bounds: "\<lfloor>y\<rfloor> \<le> round_half_even y \<and> round_half_even y \<le> \<lfloor>y\<rfloor> + 1"
  by (simp add: round_half_even_def Let_def)

lemma round_half_even_nonneg: "0 \<le> y \<Longrightarrow> 0 \<le> round_half_even y"
  using round_half_even_bounds [of y] zero_le_floor [of y] by linarith


lemma py_round2_nonneg: "0 \<le> x \<Longrightarrow> 0 \<le> py_round2 x"
  by (simp add: py_round2_def round_half_even_nonneg)


lemma lifetime_loop_sum:
  assumes "1 + eir \<noteq> 0"
  shows "lifetime_loop pd_adj lgd ead eir ts ecl cs =
     Inr (ecl + (\<Sum>i<length ts. cs * (1 - pd_adj) ^ i * pd_adj * lgd * ead / (1 + eir) ^ nat (ts ! i)))"
  using assms
proof (induction ts arbitrary: ecl cs)
  case Nil
  then show ?case by simp
next
  case (Cons t ts)
  let ?g = "\<lambda>c us i. c * (1 - pd_adj) ^ i * pd_adj * lgd * ead / (1 + eir) ^ nat (us ! i)"
  have shift: "(\<Sum>i<length (t # ts). ?g cs (t # ts) i)
      = ?g cs (t # ts) 0 + (\<Sum>i<length ts. ?g cs (t # ts) (Suc i))"
    by (simp only: list.size sum.lessThan_Suc_shift add_Suc_right add_0_right)
  have step: "(\<Sum>i<length ts. ?g cs (t # ts) (Suc i))
      = (\<Sum>i<length ts. ?g (cs * (1 - pd_adj)) ts i)"
    by (rule sum.cong) (simp_all add: mult_ac)
  have "lifetime_loop pd_adj lgd ead eir (t # ts) ecl cs =
      lifetime_loop pd_adj lgd ead eir ts
        (ecl + cs * pd_adj * lgd * ead * (1 / (1 + eir) ^ nat t)) (cs * (1 - pd_adj))"
    using Cons.prems by simp
  also have "\<dots> = Inr (ecl + cs * pd_adj * lgd * ead * (1 / (1 + eir) ^ nat t)
      + (\<Sum>i<length ts. ?g (cs * (1 - pd_adj)) ts i))"
    using Cons.prems by (rule Cons.IH)
  also have "\<dots> = Inr (ecl + (\<Sum>i<length (t # ts). ?g cs (t # ts) i))"
    unfolding shift step by simp
  finally show ?case .
qed

lemma lifetime_ecl_sum:
  assumes "1 + eir \<noteq> 0"
  shows "lifetime_ecl pd_adj lgd ead m eir = Inr (lifetime_sum pd_adj lgd ead m eir)"
proof -
  have "(\<Sum>i<length [1..m]. 1 * (1 - pd_adj) ^ i * pd_adj * lgd * ead / (1 + eir) ^ nat ([1..m] ! i))
      = (\<Sum>i<nat m. (1 - pd_adj) ^ i * pd_adj * lgd * ead / (1 + eir) ^ Suc i)"
    by (rule sum.cong) (auto simp add: nat_add_distrib)
  also have "\<dots> = (\<Sum>t = 1..nat m. (1 - pd_adj) ^ (t - 1) * pd_adj * lgd * ead / (1 + eir) ^ t)"
    by (simp add: sum.atLeast1_atMost_eq lessThan_atLeast0)
  finally show ?thesis
    using assms by (simp add: lifetime_ecl_def lifetime_sum_def lifetime_loop_sum)
qed




lemma upto_1_2: "[1..2] = [1, 2::int]"
  by (simp add: upto.simps)

lemmas ecl_eval =
  calculate_ecl_def lifetime_ecl_def upto_1_2 py_round2_def round_half_even_def Let_def
  power_divide

section \<open>Values of the loss functions\<close>

lemma calculate_ecl_returns:
  assumes "1 + eir \<noteq> 0"
  shows "calculate_ecl stage current_pd lgd ead m eir mult =
    Inr (if stage = 1 then py_round2 (min (current_pd * mult) 1 * lgd * ead)
         else py_round2 (lifetime_sum (min (current_pd * mult) 1) lgd ead m eir))"
  using assms by (simp add: calculate_ecl_def Let_def lifetime_ecl_sum)

lemma lifetime_sum_nonneg:
  assumes "0 \<le> pd_adj" "pd_adj \<le> 1" "0 \<le> lgd" "0 \<le> ead" "0 \<le> eir"
  shows "0 \<le> lifetime_sum pd_adj lgd ead m eir"
  unfolding lifetime_sum_def using assms by (intro sum_nonneg divide_nonneg_nonneg mult_nonneg_nonneg zero_le_power) simp_all

lemma calculate_ecl_nonneg:
  assumes "0 \<le> current_pd" "0 \<le> mult" "0 \<le> lgd" "0 \<le> ead" "0 \<le> eir"
  shows "\<exists>v. calculate_ecl stage current_pd lgd ead m eir mult = Inr v \<and> 0 \<le> v"
proof -
  let ?pd = "min (current_pd * mult) 1"
  from assms have pd: "0 \<le> ?pd" "?pd \<le> 1" by simp_all
  from assms have rate: "1 + eir \<noteq> 0" by simp
  have "0 \<le> ?pd * lgd * ead"
    using pd assms by (intro mult_nonneg_nonneg)
  moreover have "0 \<le> lifetime_sum ?pd lgd ead m eir"
    using pd assms by (intro lifetime_sum_nonneg)
  ultimately show ?thesis
    unfolding calculate_ecl_returns [OF rate] by (simp add: py_round2_nonneg)
qed

lemma calculate_weighted_ecl_unfold:
  "calculate_weighted_ecl stage current_pd lgd ead maturity_years eir =
     (case calculate_ecl stage current_pd lgd ead maturity_years eir (80 / 100) of
        Inl e \<Rightarrow> Inl e
      | Inr optimistic \<Rightarrow>
     (case calculate_ecl stage current_pd lgd ead maturity_years eir 1 of
        Inl e \<Rightarrow> Inl e
      | Inr base \<Rightarrow>
     (case calculate_ecl stage current_pd lgd ead maturity_years eir (150 / 100) of
        Inl e \<Rightarrow> Inl e
      | Inr downturn \<Rightarrow>
          Inr (py_round2 (30 / 100 * optimistic + 40 / 100 * base + 30 / 100 * downturn)))))"
  by (simp add: calculate_weighted_ecl_def calculate_weighted_ecl_with_def
      SCENARIO_WEIGHTS_def PD_MULTIPLIERS_def split: sum.splits)

lemma calculate_weighted_ecl_nonneg:
  assumes "0 \<le> current_pd" "0 \<le> lgd" "0 \<le> ead" "0 \<le> eir"
  shows "\<exists>v. calculate_weighted_ecl stage current_pd lgd ead m eir = Inr v \<and> 0 \<le> v"
proof -
  obtain a where a: "calculate_ecl stage current_pd lgd ead m eir (80 / 100) = Inr a" "0 \<le> a"
    using calculate_ecl_nonneg [OF assms(1) _ assms(2-4), of "80 / 100" stage m] by auto
  obtain b where b: "calculate_ecl stage current_pd lgd ead m eir 1 = Inr b" "0 \<le> b"
    using calculate_ecl_nonneg [OF assms(1) _ assms(2-4), of 1 stage m] by auto
  obtain c where c: "calculate_ecl stage current_pd lgd ead m eir (150 / 100) = Inr c" "0 \<le> c"
    using calculate_ecl_nonneg [OF assms(1) _ assms(2-4), of "150 / 100" stage m] by auto
  have "0 \<le> 30 / 100 * a + 40 / 100 * b + 30 / 100 * c"
    using a(2) b(2) c(2) by simp
  then show ?thesis
    unfolding calculate_weighted_ecl_unfold using a(1) b(1) c(1) by (simp add: py_round2_nonneg)
qed

lemma assign_stage_range: "assign_stage initial_pd current_pd \<in> {1, 2, 3}"
  by (simp add: assign_stage_def)


lemma scenario_loop_returns:
  assumes "1 + eir \<noteq> 0"
    and "list_all (\<lambda>(scenario, weight). map_of mults scenario \<noteq> None) weights"
  shows "\<exists>v. scenario_loop mults stage current_pd lgd ead m eir weights acc = Inr v"
  using assms(2)
proof (induction weights arbitrary: acc)
  case Nil
  then show ?case by simp
next
  case (Cons sw weights)
  obtain s w where sw: "sw = (s, w)" by (cases sw)
  with Cons.prems obtain mult where mult: "map_of mults s = Some mult"
    by auto
  from Cons.prems have rest: "list_all (\<lambda>(scenario, weight). map_of mults scenario \<noteq> None) weights"
    by simp
  show ?case
    using Cons.IH [OF rest] by (simp add: sw mult calculate_ecl_returns [OF assms(1)])
qed

lemma scenario_loop_key_error:
  assumes "1 + eir \<noteq> 0"
    and "find (\<lambda>(scenario, weight). map_of mults scenario = None) weights = Some (s, w)"
  shows "scenario_loop mults stage current_pd lgd ead m eir weights acc = Inl (KeyError s)"
  using assms(2)
proof (induction weights arbitrary: acc)
  case Nil
  then show ?case by simp
next
  case (Cons sw weights)
  obtain s' w' where sw: "sw = (s', w')" by (cases sw)
  show ?case
  proof (cases "map_of mults s'")
    case None
    with Cons.prems sw show ?thesis by simp
  next
    case (Some mult)
    with Cons.prems sw have "find (\<lambda>(scenario, weight). map_of mults scenario = None) weights = Some (s, w)"
      by simp
    from Cons.IH [OF this] show ?thesis
      by (simp add: sw Some calculate_ecl_returns [OF assms(1)])
  qed
qed

section \<open>The portfolio loop\<close>

lemma portfolio_loop_results:
  assumes "portfolio_loop weights mults portfolio acc = Inr results"
  shows "\<exists>new. results = acc @ new \<and> map attributes_of new = portfolio \<and>
     list_all2
       (\<lambda>loan r. r_Stage r = assign_stage (Initial_PD loan) (Current_PD loan) \<and>
          calculate_weighted_ecl_with weights mults
            (assign_stage (Initial_PD loan) (Current_PD loan)) (Current_PD loan) (LGD loan)
            (Principal loan) (Maturity_Years loan) (EIR loan) = Inr (r_ECL r))
       portfolio new"
  using assms
proof (induction portfolio arbitrary: acc)
  case Nil
  then show ?case by simp
next
  case (Cons loan rest)
  let ?stage = "assign_stage (Initial_PD loan) (Current_PD loan)"
  from Cons.prems obtain ecl where
    ecl: "calculate_weighted_ecl_with weights mults ?stage (Current_PD loan) (LGD loan)
            (Principal loan) (Maturity_Years loan) (EIR loan) = Inr ecl"
    by (auto simp add: Let_def split: sum.splits)
  let ?r = "\<lparr>r_Loan_ID = Loan_ID loan, r_Sector = Sector loan, r_Principal = Principal loan,
      r_Initial_PD = Initial_PD loan, r_Current_PD = Current_PD loan,
      r_Maturity_Years = Maturity_Years loan, r_EIR = EIR loan, r_LGD = LGD loan,
      r_Stage = ?stage, r_ECL = ecl\<rparr>"
  from Cons.prems ecl have "portfolio_loop weights mults rest (acc @ [?r]) = Inr results"
    by (simp add: Let_def)
  from Cons.IH [OF this] obtain new where
    new: "results = (acc @ [?r]) @ new" "map attributes_of new = rest"
      "list_all2
       (\<lambda>loan r. r_Stage r = assign_stage (Initial_PD loan) (Current_PD loan) \<and>
          calculate_weighted_ecl_with weights mults
            (assign_stage (Initial_PD loan) (Current_PD loan)) (Current_PD loan) (LGD loan)
            (Principal loan) (Maturity_Years loan) (EIR loan) = Inr (r_ECL r))
       rest new"
    by blast
  have "attributes_of ?r = loan"
    by (simp add: attributes_of_def)
  with new ecl show ?case
    by (intro exI [of _ "?r # new"]) simp
qed

lemma portfolio_loop_returns:
  assumes "\<forall>loan\<in>set portfolio. \<exists>ecl.
      calculate_weighted_ecl_with weights mults
        (assign_stage (Initial_PD loan) (Current_PD loan)) (Current_PD loan) (LGD loan)
        (Principal loan) (Maturity_Years loan) (EIR loan) = Inr ecl"
  shows "\<exists>results. portfolio_loop weights mults portfolio acc = Inr results"
  using assms
proof (induction portfolio arbitrary: acc)
  case Nil
  then show ?case by simp
next
  case (Cons loan rest)
  from Cons.prems obtain ecl where
    "calculate_weighted_ecl_with weights mults
        (assign_stage (Initial_PD loan) (Current_PD loan)) (Current_PD loan) (LGD loan)
        (Principal loan) (Maturity_Years loan) (EIR loan) = Inr ecl"
    by auto
  moreover from Cons.prems have "\<forall>loan\<in>set rest. \<exists>ecl.
      calculate_weighted_ecl_with weights mults
        (assign_stage (Initial_PD loan) (Current_PD loan)) (Current_PD loan) (LGD loan)
        (Principal loan) (Maturity_Years loan) (EIR loan) = Inr ecl"
    by simp
  ultimately show ?case
    using Cons.IH by (simp add: Let_def)
qed

lemma calculate_weighted_ecl_with_returns:
  assumes "1 + eir \<noteq> 0"
    and "list_all (\<lambda>(scenario, weight). map_of mults scenario \<noteq> None) weights"
  shows "\<exists>v. calculate_weighted_ecl_with weights mults stage current_pd lgd ead m eir = Inr v"
  using scenario_loop_returns [OF assms, of stage current_pd lgd ead m 0]
  by (auto simp add: calculate_weighted_ecl_with_def)

lemma default_scenario_set_complete:
  "list_all (\<lambda>(scenario, weight). map_of PD_MULTIPLIERS scenario \<noteq> None) SCENARIO_WEIGHTS"
  by (simp add: SCENARIO_WEIGHTS_def PD_MULTIPLIERS_def del: not_None_eq)

section \<open>Stage assignment\<close>


section \<open>The scenario loss formula\<close>



text \<open>
  C5. Golden values: stage 1 with \<open>current_pd = 0.02\<close>, \<open>lgd = 0.45\<close>, \<open>ead = 100000\<close>
  and multiplier 1 gives 900.00 (whatever the maturity and the rate, which stage 1 does
  not read); stage 3 with \<open>current_pd = 0.60\<close>, \<open>lgd = 0.45\<close>, \<open>ead = 100000\<close>, one year,
  \<open>eir = 0.03\<close> and multiplier 1 gives 26213.59.
\<close>

theorem calculate_ecl_golden_values:
  "calculate_ecl 1 (2 / 100) (45 / 100) 100000 maturity_years eir 1 = Inr 900
   \<and> calculate_ecl 3 (60 / 100) (45 / 100) 100000 1 (3 / 100) 1 = Inr (2621359 / 100)"
  by (simp add: calculate_ecl_def lifetime_ecl_def py_round2_def round_half_even_def Let_def)

text \<open>
  C10. \<open>calculate_ecl\<close> branches only on \<open>stage == 1\<close>. Any other stage value, in or
  out of \<open>{2, 3}\<close>, takes the lifetime branch: the call behaves as the call with stage 2
  and as the call with stage 3, and where the loop does not divide by zero it returns the
  rounded lifetime sum. No stage is rejected.
\<close>

theorem calculate_ecl_any_other_stage:
  assumes "stage \<noteq> 1"
  shows "calculate_ecl stage current_pd lgd ead maturity_years eir pd_multiplier =
           calculate_ecl 2 current_pd lgd ead maturity_years eir pd_multiplier
         \<and> calculate_ecl stage current_pd lgd ead maturity_years eir pd_multiplier =
           calculate_ecl 3 current_pd lgd ead maturity_years eir pd_multiplier
         \<and> (1 + eir \<noteq> 0 \<longrightarrow>
             calculate_ecl stage current_pd lgd ead maturity_years eir pd_multiplier =
             Inr (py_round2
                   (lifetime_sum (min (current_pd * pd_multiplier) 1) lgd ead
                      maturity_years eir)))"
  using assms by (simp add: calculate_ecl_def Let_def lifetime_ecl_sum)

theorem calculate_ecl_any_other_stage_witness:
  "calculate_ecl 0 (1 / 10) (1 / 2) 100 2 (5 / 100) 1 = Inr (884 / 100)
   \<and> calculate_ecl 4 (1 / 10) (1 / 2) 100 2 (5 / 100) 1 = Inr (884 / 100)
   \<and> calculate_ecl (- 7) (1 / 10) (1 / 2) 100 2 (5 / 100) 1 = Inr (884 / 100)
   \<and> py_round2 (lifetime_sum (min (1 / 10 * 1) 1) (1 / 2) 100 2 (5 / 100)) = 884 / 100"
proof -
  have base: "calculate_ecl 2 (1 / 10) (1 / 2) 100 2 (5 / 100) 1 = Inr (884 / 100)"
    by (simp add: ecl_eval)
  have stages: "(0::int) \<noteq> 1" "(4::int) \<noteq> 1" "(- 7::int) \<noteq> 1"
    by simp_all
  have rate: "1 + 5 / 100 \<noteq> (0::real)"
    by simp
  note other = calculate_ecl_any_other_stage
    [where current_pd = "1 / 10" and lgd = "1 / 2" and ead = 100 and maturity_years = 2
       and eir = "5 / 100" and pd_multiplier = 1]
  from other [OF stages(1)] other [OF stages(2)] other [OF stages(3)] rate base
  show ?thesis
    by (metis sum.inject(2))
qed

section \<open>The scenario-weighted aggregate\<close>


section \<open>Discounting\<close>




section \<open>The portfolio processor\<close>

text \<open>
  C4. \<open>process_portfolio\<close> returns one result per input loan, in the order of the
  input, and each result carries the eight attributes of its loan unchanged (Loan_ID,
  Sector, Principal, Initial_PD, Current_PD, Maturity_Years, EIR, LGD); the two fields it
  adds are the Stage that \<open>assign_stage\<close> gives and the ECL that
  \<open>calculate_weighted_ecl\<close> gives for that stage. This holds of every list the call
  returns, and the call returns a list when no loan has \<open>EIR = -1\<close>.
\<close>

theorem process_portfolio_frame:
  "(\<forall>results. process_portfolio portfolio = Inr results \<longrightarrow>
      length results = length portfolio
      \<and> map attributes_of results = portfolio
      \<and> (\<forall>i < length portfolio.
            r_Stage (results ! i) =
              assign_stage (Initial_PD (portfolio ! i)) (Current_PD (portfolio ! i))
            \<and> calculate_weighted_ecl (r_Stage (results ! i)) (Current_PD (portfolio ! i))
                (LGD (portfolio ! i)) (Principal (portfolio ! i))
                (Maturity_Years (portfolio ! i)) (EIR (portfolio ! i)) =
              Inr (r_ECL (results ! i))))
   \<and> ((\<forall>loan \<in> set portfolio. 1 + EIR loan \<noteq> 0) \<longrightarrow>
        (\<exists>results. process_portfolio portfolio = Inr results))"
proof (intro conjI allI impI)
  fix results
  assume "process_portfolio portfolio = Inr results"
  then have "portfolio_loop SCENARIO_WEIGHTS PD_MULTIPLIERS portfolio [] = Inr results"
    by (simp add: process_portfolio_def process_portfolio_with_def)
  from portfolio_loop_results [OF this]
  have attrs: "map attributes_of results = portfolio"
    and added: "list_all2
       (\<lambda>loan r. r_Stage r = assign_stage (Initial_PD loan) (Current_PD loan) \<and>
          calculate_weighted_ecl_with SCENARIO_WEIGHTS PD_MULTIPLIERS
            (assign_stage (Initial_PD loan) (Current_PD loan))
            (Current_PD loan) (LGD loan) (Principal loan) (Maturity_Years loan) (EIR loan) =
          Inr (r_ECL r))
       portfolio results"
    by auto
  show "map attributes_of results = portfolio"
    by (rule attrs)
  show "length results = length portfolio"
    using added by (simp add: list_all2_lengthD)
  fix i
  assume "i < length portfolio"
  then have stage: "r_Stage (results ! i) =
        assign_stage (Initial_PD (portfolio ! i)) (Current_PD (portfolio ! i))"
    using added by (simp add: list_all2_conv_all_nth)
  then show "r_Stage (results ! i) =
        assign_stage (Initial_PD (portfolio ! i)) (Current_PD (portfolio ! i))" .
  from added \<open>i < length portfolio\<close>
  show "calculate_weighted_ecl (r_Stage (results ! i)) (Current_PD (portfolio ! i))
        (LGD (portfolio ! i)) (Principal (portfolio ! i))
        (Maturity_Years (portfolio ! i)) (EIR (portfolio ! i)) = Inr (r_ECL (results ! i))"
    unfolding stage by (simp add: list_all2_conv_all_nth calculate_weighted_ecl_def)
next
  assume rates: "\<forall>loan \<in> set portfolio. 1 + EIR loan \<noteq> 0"
  have "\<forall>loan\<in>set portfolio. \<exists>ecl.
      calculate_weighted_ecl_with SCENARIO_WEIGHTS PD_MULTIPLIERS
        (assign_stage (Initial_PD loan) (Current_PD loan)) (Current_PD loan) (LGD loan)
        (Principal loan) (Maturity_Years loan) (EIR loan) = Inr ecl"
    using rates
    by (auto intro: calculate_weighted_ecl_with_returns default_scenario_set_complete)
  from portfolio_loop_returns [OF this]
  show "\<exists>results. process_portfolio portfolio = Inr results"
    by (simp add: process_portfolio_def process_portfolio_with_def)
qed

theorem process_portfolio_frame_witness:
  "1 + EIR loan_L1 \<noteq> 0 \<and> 1 + EIR loan_L2 \<noteq> 0
   \<and> (\<exists>results. process_portfolio [loan_L2, loan_L1] = Inr results
        \<and> length results = 2
        \<and> map attributes_of results = [loan_L2, loan_L1]
        \<and> r_Stage (results ! 0) = 3 \<and> r_Stage (results ! 1) = 1)"
proof -
  have rates: "\<forall>loan \<in> set [loan_L2, loan_L1]. 1 + EIR loan \<noteq> 0"
    by simp
  from process_portfolio_frame [of "[loan_L2, loan_L1]"] rates
  obtain results where results: "process_portfolio [loan_L2, loan_L1] = Inr results"
    by blast
  with process_portfolio_frame [of "[loan_L2, loan_L1]"]
  have "length results = length [loan_L2, loan_L1]"
    and "map attributes_of results = [loan_L2, loan_L1]"
    and "\<forall>i < length [loan_L2, loan_L1]. r_Stage (results ! i) =
        assign_stage (Initial_PD ([loan_L2, loan_L1] ! i)) (Current_PD ([loan_L2, loan_L1] ! i))"
    by blast+
  then have "length results = 2" "map attributes_of results = [loan_L2, loan_L1]"
    "r_Stage (results ! 0) = 3" "r_Stage (results ! 1) = 1"
    by (simp_all add: assign_stage_def)
  with results show ?thesis
    by simp
qed

text \<open>
  C6. For every loan with valid fields (principal positive, both default probabilities in
  \<open>(0, 1]\<close>, at least one year, a rate that is not negative, loss given default in
  \<open>[0, 1]\<close>), the result that \<open>process_portfolio\<close> produces for it has a Stage in
  \<open>{1, 2, 3}\<close> and an ECL that is not negative. This holds at every valid loan of every
  list the call returns, and the call returns a list, one result per loan, when all loans
  are valid.
\<close>

theorem process_portfolio_valid:
  "(\<forall>results. process_portfolio portfolio = Inr results \<longrightarrow>
      (\<forall>i < length portfolio. valid_loan (portfolio ! i) \<longrightarrow>
         r_Stage (results ! i) \<in> {1, 2, 3} \<and> 0 \<le> r_ECL (results ! i)))
   \<and> ((\<forall>loan \<in> set portfolio. valid_loan loan) \<longrightarrow>
        (\<exists>results. process_portfolio portfolio = Inr results
           \<and> length results = length portfolio))"
proof (intro conjI allI impI)
  fix results i
  assume "process_portfolio portfolio = Inr results"
    and i: "i < length portfolio" and valid: "valid_loan (portfolio ! i)"
  then have "portfolio_loop SCENARIO_WEIGHTS PD_MULTIPLIERS portfolio [] = Inr results"
    by (simp add: process_portfolio_def process_portfolio_with_def)
  from portfolio_loop_results [OF this]
  have added: "list_all2
       (\<lambda>loan r. r_Stage r = assign_stage (Initial_PD loan) (Current_PD loan) \<and>
          calculate_weighted_ecl_with SCENARIO_WEIGHTS PD_MULTIPLIERS
            (assign_stage (Initial_PD loan) (Current_PD loan))
            (Current_PD loan) (LGD loan) (Principal loan) (Maturity_Years loan) (EIR loan) =
          Inr (r_ECL r))
       portfolio results"
    by auto
  define loan where "loan = portfolio ! i"
  from list_all2_nthD [OF added i]
  have stage: "r_Stage (results ! i) = assign_stage (Initial_PD loan) (Current_PD loan)"
    and ecl: "calculate_weighted_ecl (assign_stage (Initial_PD loan) (Current_PD loan))
        (Current_PD loan) (LGD loan) (Principal loan) (Maturity_Years loan) (EIR loan) =
        Inr (r_ECL (results ! i))"
    by (simp_all add: loan_def calculate_weighted_ecl_def)
  from valid
  have "\<exists>v. calculate_weighted_ecl (assign_stage (Initial_PD loan) (Current_PD loan))
      (Current_PD loan) (LGD loan) (Principal loan) (Maturity_Years loan) (EIR loan) =
      Inr v \<and> 0 \<le> v"
    by (intro calculate_weighted_ecl_nonneg) (simp_all add: valid_loan_def loan_def)
  with ecl show "0 \<le> r_ECL (results ! i)"
    by simp
  show "r_Stage (results ! i) \<in> {1, 2, 3}"
    unfolding stage by (rule assign_stage_range)
next
  assume valid: "\<forall>loan \<in> set portfolio. valid_loan loan"
  then have "\<forall>loan\<in>set portfolio. \<exists>ecl.
      calculate_weighted_ecl_with SCENARIO_WEIGHTS PD_MULTIPLIERS
        (assign_stage (Initial_PD loan) (Current_PD loan)) (Current_PD loan) (LGD loan)
        (Principal loan) (Maturity_Years loan) (EIR loan) = Inr ecl"
    by (auto simp add: valid_loan_def
        intro!: calculate_weighted_ecl_with_returns default_scenario_set_complete)
  from portfolio_loop_returns [OF this]
  obtain results where
    results: "portfolio_loop SCENARIO_WEIGHTS PD_MULTIPLIERS portfolio [] = Inr results"
    by blast
  from portfolio_loop_results [OF this] have "length results = length portfolio"
    by (auto dest: list_all2_lengthD)
  with results
  show "\<exists>results. process_portfolio portfolio = Inr results
      \<and> length results = length portfolio"
    by (simp add: process_portfolio_def process_portfolio_with_def)
qed

theorem process_portfolio_valid_witness:
  "valid_loan loan_L1 \<and> valid_loan loan_L2
   \<and> (\<exists>results. process_portfolio [loan_L1, loan_L2] = Inr results
        \<and> length results = 2
        \<and> r_Stage (results ! 0) \<in> {1, 2, 3} \<and> 0 \<le> r_ECL (results ! 0)
        \<and> r_Stage (results ! 1) \<in> {1, 2, 3} \<and> 0 \<le> r_ECL (results ! 1))"
proof -
  have valid: "valid_loan loan_L1" "valid_loan loan_L2"
    by (simp_all add: valid_loan_def)
  then have all: "\<forall>loan \<in> set [loan_L1, loan_L2]. valid_loan loan"
    by simp
  note inst = process_portfolio_valid [of "[loan_L1, loan_L2]"]
  from inst all obtain results where
    results: "process_portfolio [loan_L1, loan_L2] = Inr results"
      "length results = length [loan_L1, loan_L2]"
    by blast
  with inst have each: "\<forall>i < length [loan_L1, loan_L2]. valid_loan ([loan_L1, loan_L2] ! i) \<longrightarrow>
      r_Stage (results ! i) \<in> {1, 2, 3} \<and> 0 \<le> r_ECL (results ! i)"
    by blast
  from each [rule_format, of 0] valid
  have first: "r_Stage (results ! 0) \<in> {1, 2, 3} \<and> 0 \<le> r_ECL (results ! 0)"
    by simp
  from each [rule_format, of 1] valid
  have second: "r_Stage (results ! 1) \<in> {1, 2, 3} \<and> 0 \<le> r_ECL (results ! 1)"
    by simp
  from results(2) have "length results = 2"
    by simp
  with valid results(1) first second show ?thesis
    by blast
qed

section \<open>The scenario set is not validated\<close>

text \<open>
  C9, as stated, fails: with the single weight 0.5 (the weights do not sum to 1) a loan
  is processed and its result returned, the ECL being half of the Base value; and with a
  weight whose scenario has no multiplier an empty portfolio is processed without any
  error.
\<close>

theorem invalid_scenario_set_counterexample:
  "\<not> valid_scenario_set [(''Base'', 1 / 2)] [(''Base'', 1)]
   \<and> process_portfolio_with [(''Base'', 1 / 2)] [(''Base'', 1)] [loan_L1] =
       Inr [\<lparr>r_Loan_ID = ''L1'', r_Sector = ''Retail'', r_Principal = 100000,
             r_Initial_PD = 2 / 100, r_Current_PD = 2 / 100, r_Maturity_Years = 2,
             r_EIR = 5 / 100, r_LGD = 45 / 100, r_Stage = 1, r_ECL = 450\<rparr>]
   \<and> \<not> valid_scenario_set [(''Base'', 1)] []
   \<and> process_portfolio_with [(''Base'', 1)] [] [] = Inr []"
  by (simp add: valid_scenario_set_def process_portfolio_with_def
      calculate_weighted_ecl_with_def assign_stage_def calculate_ecl_def py_round2_def
      round_half_even_def Let_def)

text \<open>
  C9, amended. The engine does not validate the scenario set. An empty portfolio returns
  an empty list whatever the scenario set. When a scenario of the weights has no
  multiplier, processing the first loan raises KeyError for the first such scenario (the
  loan's rate not being \<open>-1\<close>), so no result is returned. When every scenario of the
  weights has a multiplier, one result per loan is returned whatever the weights sum to
  (no loan's rate being \<open>-1\<close>).
\<close>

theorem scenario_set_not_validated:
  "process_portfolio_with weights mults [] = Inr []
   \<and> (find (\<lambda>(scenario, weight). map_of mults scenario = None) weights = Some (s, w)
        \<and> 1 + EIR loan \<noteq> 0 \<longrightarrow>
      process_portfolio_with weights mults (loan # rest) = Inl (KeyError s))
   \<and> (list_all (\<lambda>(scenario, weight). map_of mults scenario \<noteq> None) weights
        \<and> (\<forall>loan \<in> set portfolio. 1 + EIR loan \<noteq> 0) \<longrightarrow>
      (\<exists>results. process_portfolio_with weights mults portfolio = Inr results
         \<and> length results = length portfolio))"
proof (intro conjI impI)
  show "process_portfolio_with weights mults [] = Inr []"
    by (simp add: process_portfolio_with_def)
next
  assume "find (\<lambda>(scenario, weight). map_of mults scenario = None) weights = Some (s, w)
      \<and> 1 + EIR loan \<noteq> 0"
  then have "scenario_loop mults (assign_stage (Initial_PD loan) (Current_PD loan))
      (Current_PD loan) (LGD loan) (Principal loan) (Maturity_Years loan) (EIR loan)
      weights 0 = Inl (KeyError s)"
    by (intro scenario_loop_key_error) simp_all
  then show "process_portfolio_with weights mults (loan # rest) = Inl (KeyError s)"
    by (simp add: process_portfolio_with_def calculate_weighted_ecl_with_def Let_def)
next
  assume ok: "list_all (\<lambda>(scenario, weight). map_of mults scenario \<noteq> None) weights
      \<and> (\<forall>loan \<in> set portfolio. 1 + EIR loan \<noteq> 0)"
  then have "\<forall>loan\<in>set portfolio. \<exists>ecl.
      calculate_weighted_ecl_with weights mults
        (assign_stage (Initial_PD loan) (Current_PD loan)) (Current_PD loan) (LGD loan)
        (Principal loan) (Maturity_Years loan) (EIR loan) = Inr ecl"
    by (auto intro: calculate_weighted_ecl_with_returns)
  from portfolio_loop_returns [OF this]
  obtain results where results: "portfolio_loop weights mults portfolio [] = Inr results"
    by blast
  from portfolio_loop_results [OF this] have "length results = length portfolio"
    by (auto dest: list_all2_lengthD)
  with results
  show "\<exists>results. process_portfolio_with weights mults portfolio = Inr results
      \<and> length results = length portfolio"
    by (simp add: process_portfolio_with_def)
qed

theorem scenario_set_not_validated_witness:
  "process_portfolio_with [(''Base'', 4 / 10), (''Downturn'', 3 / 10)] [(''Base'', 1)]
      [loan_L1, loan_L2] = Inl (KeyError ''Downturn'')
   \<and> (\<exists>results.
        process_portfolio_with [(''Base'', 1 / 2)] [(''Base'', 1)] [loan_L1, loan_L2] =
          Inr results
        \<and> length results = 2)"
proof -
  have "find (\<lambda>(scenario, weight). map_of [(''Base'', 1::real)] scenario = None)
      [(''Base'', 4 / 10 :: real), (''Downturn'', 3 / 10)] = Some (''Downturn'', 3 / 10)
      \<and> 1 + EIR loan_L1 \<noteq> 0"
    by simp
  with scenario_set_not_validated
    [of "[(''Base'', 4 / 10), (''Downturn'', 3 / 10)]" "[(''Base'', 1)]"
      "''Downturn''" "3 / 10" loan_L1 "[loan_L2]"]
  have first: "process_portfolio_with [(''Base'', 4 / 10), (''Downturn'', 3 / 10)]
      [(''Base'', 1)] [loan_L1, loan_L2] = Inl (KeyError ''Downturn'')"
    by blast
  have "list_all (\<lambda>(scenario, weight). map_of [(''Base'', 1::real)] scenario \<noteq> None)
      [(''Base'', 1 / 2 :: real)]
      \<and> (\<forall>loan \<in> set [loan_L1, loan_L2]. 1 + EIR loan \<noteq> 0)"
    by simp
  with scenario_set_not_validated
    [where weights = "[(''Base'', 1 / 2)]" and mults = "[(''Base'', 1)]"
      and portfolio = "[loan_L1, loan_L2]"]
  have "\<exists>results.
      process_portfolio_with [(''Base'', 1 / 2)] [(''Base'', 1)] [loan_L1, loan_L2] =
        Inr results
      \<and> length results = length [loan_L1, loan_L2]"
    by blast
  with first show ?thesis
    by (simp add: numeral_2_eq_2)
qed

end
